theory Spec2Isabelle
  imports Complex_Main "HOL-Library.Sublist"
begin

section \<open>ChatTown: the conversation normaliser of \<^verbatim>\<open>src/index.tsx\<close>\<close>

text \<open>
  The development embeds the pure core of \<^verbatim>\<open>index.tsx\<close>: the helper functions
  \<^verbatim>\<open>generateSummary\<close> and \<^verbatim>\<open>sanitizeFilename\<close>, the normaliser \<^verbatim>\<open>parseConversations\<close>,
  and the part of the component state that the upload, selection and export handlers
  read and write.

  Conventions of the embedding.
  \<^item> A JavaScript string is a list of UTF-16 code units; a \<^typ>\<open>char\<close> stands for the code
    unit of the same value, U+0000 to U+00FF. \<^verbatim>\<open>length\<close> and \<^verbatim>\<open>substring\<close> count code
    units, as \<^const>\<open>length\<close> and \<^const>\<open>take\<close> count characters.
  \<^item> A number read from the file is a finite value, taken as a \<^typ>\<open>real\<close>, or one of the
    two infinities, which \<^verbatim>\<open>JSON.parse\<close> yields for a literal out of range such as
    \<^verbatim>\<open>2e308\<close>. The code only tests timestamps for being zero and subtracts two of them
    to compare them.
  \<^item> Fields are typed as the TypeScript interfaces declare them. A field that is declared
    optional or nullable, or that the code tests for truthiness before it reads it, is
    an \<^typ>\<open>'a option\<close> (\<^const>\<open>None\<close> for a missing or \<^verbatim>\<open>null\<close> value).
  \<^item> An object used as a dictionary is an association list in the order in which
    \<^verbatim>\<open>Object.values\<close> enumerates it.
\<close>

subsection \<open>Raw archive data\<close>

datatype number = NegInfinity | Finite real | Infinity

instantiation number :: "{zero, linorder}"
begin

definition zero_number :: number where
  "zero_number = Finite 0"

fun less_eq_number :: "number \<Rightarrow> number \<Rightarrow> bool" where
  "less_eq_number NegInfinity b = True"
| "less_eq_number (Finite x) NegInfinity = False"
| "less_eq_number (Finite x) (Finite y) = (x \<le> y)"
| "less_eq_number (Finite x) Infinity = True"
| "less_eq_number Infinity NegInfinity = False"
| "less_eq_number Infinity (Finite y) = False"
| "less_eq_number Infinity Infinity = True"

definition less_number :: "number \<Rightarrow> number \<Rightarrow> bool" where
  "less_number a b = (a \<le> b \<and> \<not> b \<le> a)"

instance
proof
  fix a b c :: number
  show "(a < b) = (a \<le> b \<and> \<not> b \<le> a)"
    by (simp add: less_number_def)
  show "a \<le> a"
    by (cases a) simp_all
  show "a \<le> b \<Longrightarrow> b \<le> c \<Longrightarrow> a \<le> c"
    by (cases a; cases b; cases c) simp_all
  show "a \<le> b \<Longrightarrow> b \<le> a \<Longrightarrow> a = b"
    by (cases a; cases b) simp_all
  show "a \<le> b \<or> b \<le> a"
    by (cases a; cases b) auto
qed

end

text \<open>
  The result of a subtraction: a number, or \<^verbatim>\<open>NaN\<close> for the difference of two equal
  infinities.
\<close>

datatype arith = NaN | Num number

fun js_minus :: "number \<Rightarrow> number \<Rightarrow> arith" where
  "js_minus (Finite x) (Finite y) = Num (Finite (x - y))"
| "js_minus (Finite x) Infinity = Num NegInfinity"
| "js_minus (Finite x) NegInfinity = Num Infinity"
| "js_minus Infinity Infinity = NaN"
| "js_minus Infinity b = Num Infinity"
| "js_minus NegInfinity NegInfinity = NaN"
| "js_minus NegInfinity b = Num NegInfinity"

text \<open>\<^verbatim>\<open>create_time?: number | null\<close> has three shapes.\<close>

datatype 'a nullable = Undefined | Null | Value 'a

record RawChatMessageContent =
  content_type :: string
  parts :: "string list option"
  content_text :: "string option"

record RawChatMessageAuthor =
  role :: string
  author_name :: "string option"

record RawChatMessageMetadata =
  is_visually_hidden_from_conversation :: "bool option"

record RawChatMessage =
  message_id :: string
  author :: RawChatMessageAuthor
  create_time :: "number nullable"
  content :: "RawChatMessageContent option"
  metadata :: "RawChatMessageMetadata option"

record RawChatNode =
  node_id :: string
  message :: "RawChatMessage option"
  parent :: "string option"
  children :: "string list"

text \<open>
  The timestamps of a conversation are declared as numbers and copied unread; a file that
  was written back may hold \<^verbatim>\<open>null\<close> in their place, so they have the three shapes too.
\<close>

record RawConversation =
  conv_id :: "string option"
  conv_title :: "string option"
  conv_create_time :: "number nullable"
  conv_update_time :: "number nullable"
  mapping :: "(string \<times> RawChatNode option) list option"
  current_node :: "string option"

subsection \<open>Processed data\<close>

record Message =
  msg_id :: string
  authorRole :: string
  contentText :: string
  createTime :: "number option"

record ProcessedConversation =
  pc_id :: string
  title :: string
  pc_createTime :: "number nullable"
  updateTime :: "number nullable"
  messages :: "Message list"
  summary :: string
  originalData :: RawConversation

subsection \<open>String primitives of the platform\<close>

text \<open>
  \<^verbatim>\<open>String.prototype.toLowerCase\<close> on the code units below U+0100: the letters A to Z and
  the capital letters U+00C0 to U+00DE (the multiplication sign U+00D7 apart) move up by
  32, every other code unit stays.
\<close>

definition toLowerCase_char :: "char \<Rightarrow> char" where
  "toLowerCase_char c =
     (let n = (of_char c :: nat)
      in if (65 \<le> n \<and> n \<le> 90) \<or> (192 \<le> n \<and> n \<le> 222 \<and> n \<noteq> 215)
         then char_of (n + 32) else c)"

definition toLowerCase :: "string \<Rightarrow> string" where
  "toLowerCase s = map toLowerCase_char s"

text \<open>
  The white space of \<^verbatim>\<open>\s\<close> and of \<^verbatim>\<open>trim\<close> below U+0100: tab, line feed, vertical tab,
  form feed, carriage return, space and the no-break space.
\<close>

definition is_whitespace :: "char \<Rightarrow> bool" where
  "is_whitespace c = ((of_char c :: nat) \<in> {9, 10, 11, 12, 13, 32, 160})"

definition trim :: "string \<Rightarrow> string" where
  "trim s = rev (dropWhile is_whitespace (rev (dropWhile is_whitespace s)))"

text \<open>\<^verbatim>\<open>s.substring(0, n) + (s.length > n ? "..." : "")\<close>\<close>

definition truncate_dots :: "nat \<Rightarrow> string \<Rightarrow> string" where
  "truncate_dots n s = take n s @ (if length s > n then ''...'' else '''')"

text \<open>\<^verbatim>\<open>hay.includes(needle)\<close>\<close>

fun str_includes :: "string \<Rightarrow> string \<Rightarrow> bool" where
  "str_includes [] needle = (needle = [])"
| "str_includes (c # cs) needle = (prefix needle (c # cs) \<or> str_includes cs needle)"

text \<open>The decimal rendering of an array index in a template literal.\<close>

fun decimal :: "nat \<Rightarrow> string" where
  "decimal n =
     (if n < 10 then [char_of (48 + n)]
      else decimal (n div 10) @ [char_of (48 + n mod 10)])"

declare decimal.simps [simp del]

subsection \<open>\<^verbatim>\<open>generateSummary\<close>\<close>

definition genericTitles :: "string list" where
  "genericTitles = [''new chat'', ''empty chat'', ''untitled conversation'']"

definition is_user_with_text :: "Message \<Rightarrow> bool" where
  "is_user_with_text m = (authorRole m = ''user'' \<and> contentText m \<noteq> [])"

definition is_assistant_with_text :: "Message \<Rightarrow> bool" where
  "is_assistant_with_text m = (authorRole m = ''assistant'' \<and> contentText m \<noteq> [])"

definition generateSummary :: "string \<Rightarrow> Message list \<Rightarrow> string" where
  "generateSummary ttl msgs =
     (if ttl \<noteq> [] \<and> toLowerCase ttl \<notin> set genericTitles then truncate_dots 150 ttl
      else case find is_user_with_text msgs of
        Some firstUserMessage \<Rightarrow> truncate_dots 100 (contentText firstUserMessage)
      | None \<Rightarrow>
         (case find is_assistant_with_text msgs of
            Some firstAssistantMessage \<Rightarrow> truncate_dots 100 (contentText firstAssistantMessage)
          | None \<Rightarrow> (if ttl \<noteq> [] then ttl else ''No summary available'')))"

subsection \<open>\<^verbatim>\<open>sanitizeFilename\<close>\<close>

text \<open>
  \<^verbatim>\<open>name.replace(/\s+/g, '_')\<close>: scanning from the left, a white-space character
  starts a match that takes the whole run, and the run is replaced by one underscore.
\<close>

function replace_whitespace_runs :: "string \<Rightarrow> string" where
  "replace_whitespace_runs [] = []"
| "replace_whitespace_runs (c # cs) =
     (if is_whitespace c then CHR ''_'' # replace_whitespace_runs (dropWhile is_whitespace cs)
      else c # replace_whitespace_runs cs)"
  by pat_completeness auto
termination
  by (relation "measure length") (auto simp: length_dropWhile_le less_Suc_eq_le)

text \<open>The character class \<^verbatim>\<open>[/\\?%*:|"<>]\<close>.\<close>

definition unsuitable_chars :: "char list" where
  "unsuitable_chars =
     [CHR ''/'', CHR 0x5C, CHR ''?'', CHR ''%'', CHR ''*'', CHR '':'', CHR ''|'', CHR 0x22,
      CHR ''<'', CHR ''>'']"

definition remove_unsuitable :: "string \<Rightarrow> string" where
  "remove_unsuitable s = filter (\<lambda>c. c \<notin> set unsuitable_chars) s"

definition sanitizeFilename :: "string \<Rightarrow> string" where
  "sanitizeFilename name =
     (if name = [] then ''untitled_conversation''
      else take 100 (remove_unsuitable (replace_whitespace_runs name)))"

subsection \<open>Truthiness\<close>

text \<open>\<^verbatim>\<open>s || d\<close> for an optional string: the empty string is falsy as a missing one is.\<close>

definition str_or :: "string option \<Rightarrow> string \<Rightarrow> string" where
  "str_or s d = (case s of None \<Rightarrow> d | Some v \<Rightarrow> if v = [] then d else v)"

definition truthy_str :: "string option \<Rightarrow> bool" where
  "truthy_str s = (case s of None \<Rightarrow> False | Some v \<Rightarrow> v \<noteq> [])"

text \<open>\<^verbatim>\<open>t || 0\<close> for an optional number.\<close>

definition num_or_zero :: "number option \<Rightarrow> number" where
  "num_or_zero t = (case t of None \<Rightarrow> 0 | Some v \<Rightarrow> if v = 0 then 0 else v)"

text \<open>\<^verbatim>\<open>t || undefined\<close> for \<^verbatim>\<open>number | null | undefined\<close>: zero is falsy.\<close>

definition num_or_undefined :: "number nullable \<Rightarrow> number option" where
  "num_or_undefined t =
     (case t of Undefined \<Rightarrow> None | Null \<Rightarrow> None | Value v \<Rightarrow> if v = 0 then None else Some v)"

subsection \<open>\<^verbatim>\<open>Array.prototype.sort\<close> with a comparator\<close>

text \<open>
  The sort of the platform is stable. For a comparator that orders the elements
  consistently, stability and sortedness fix the result, so the model is the stable
  insertion sort driven by the sign of the comparator: an element goes in front of the
  first later element that it does not exceed. The sort takes a comparator result of
  \<^verbatim>\<open>NaN\<close> for 0.
\<close>

fun is_positive :: "arith \<Rightarrow> bool" where
  "is_positive NaN = False"
| "is_positive (Num n) = (0 < n)"

fun insert_sorted :: "('a \<Rightarrow> 'a \<Rightarrow> arith) \<Rightarrow> 'a \<Rightarrow> 'a list \<Rightarrow> 'a list" where
  "insert_sorted cmp x [] = [x]"
| "insert_sorted cmp x (y # ys) =
     (if \<not> is_positive (cmp x y) then x # y # ys else y # insert_sorted cmp x ys)"

fun array_sort :: "('a \<Rightarrow> 'a \<Rightarrow> arith) \<Rightarrow> 'a list \<Rightarrow> 'a list" where
  "array_sort cmp [] = []"
| "array_sort cmp (x # xs) = insert_sorted cmp x (array_sort cmp xs)"

subsection \<open>\<^verbatim>\<open>parseConversations\<close>\<close>

text \<open>\<^verbatim>\<open>(a, b) => (a.createTime || 0) - (b.createTime || 0)\<close>\<close>

definition compareFn :: "Message \<Rightarrow> Message \<Rightarrow> arith" where
  "compareFn a b = js_minus (num_or_zero (createTime a)) (num_or_zero (createTime b))"

text \<open>\<^verbatim>\<open>node.message.metadata?.is_visually_hidden_from_conversation\<close>, as a condition.\<close>

definition is_hidden :: "RawChatMessage \<Rightarrow> bool" where
  "is_hidden msg =
     (case metadata msg of None \<Rightarrow> False
      | Some md \<Rightarrow> is_visually_hidden_from_conversation md = Some True)"

text \<open>
  The body of the \<^verbatim>\<open>forEach\<close> callback: it either returns early or pushes one
  message onto \<^verbatim>\<open>messages\<close>.
\<close>

definition visit_node :: "RawChatNode option \<Rightarrow> Message list \<Rightarrow> Message list" where
  "visit_node node msgs =
     (case node of None \<Rightarrow> msgs | Some n \<Rightarrow>
       (case message n of None \<Rightarrow> msgs | Some msg \<Rightarrow>
         (case content msg of None \<Rightarrow> msgs | Some c \<Rightarrow>
           (if parts c \<noteq> None \<or> truthy_str (content_text c) then
              (if is_hidden msg then msgs
               else
                 (let textContent =
                    (case parts c of Some ps \<Rightarrow> concat ps
                     | None \<Rightarrow> str_or (content_text c) [])
                  in if trim textContent = [] then msgs
                     else msgs @
                       [\<lparr>msg_id = message_id msg,
                         authorRole = role (author msg),
                         contentText = textContent,
                         createTime = num_or_undefined (create_time msg)\<rparr>]))
            else msgs))))"

definition Object_values :: "('k \<times> 'v) list \<Rightarrow> 'v list" where
  "Object_values obj = map snd obj"

definition collect_messages :: "(string \<times> RawChatNode option) list \<Rightarrow> Message list" where
  "collect_messages m = foldl (\<lambda>msgs node. visit_node node msgs) [] (Object_values m)"

text \<open>
  The callback of \<^verbatim>\<open>jsonData.map\<close>; \<^const>\<open>None\<close> is its \<^verbatim>\<open>null\<close> for a skipped record
  (the warning it logs is not part of the model).
\<close>

definition processConversation :: "RawConversation \<Rightarrow> nat \<Rightarrow> ProcessedConversation option" where
  "processConversation conv index =
     (case mapping conv of None \<Rightarrow> None | Some m \<Rightarrow>
       (if \<not> truthy_str (conv_id conv) then None
        else
          (let msgs = array_sort compareFn (collect_messages m);
               ttl = str_or (conv_title conv) ''Untitled Conversation''
           in Some \<lparr>pc_id = str_or (conv_id conv) (''generated-id-'' @ decimal index),
                    title = ttl,
                    pc_createTime = conv_create_time conv,
                    updateTime = conv_update_time conv,
                    messages = msgs,
                    summary = generateSummary ttl msgs,
                    originalData = conv\<rparr>)))"

text \<open>The parsed file: an array of records, or any other JSON value.\<close>

datatype JsonData = JArray "RawConversation list" | JNotArray

datatype exn = Error (message_of: string)

text \<open>\<^verbatim>\<open>jsonData.map(callback).filter(Boolean)\<close>, or the exception for a value that is no array.\<close>

definition parseConversations :: "JsonData \<Rightarrow> exn + ProcessedConversation list" where
  "parseConversations jsonData =
     (case jsonData of
        JNotArray \<Rightarrow> Inl (Error ''Invalid format: Expected an array of conversations.'')
      | JArray convs \<Rightarrow>
          Inr (List.map_filter (\<lambda>(index, conv). processConversation conv index)
                 (enumerate 0 convs)))"

subsection \<open>The component state and its handlers\<close>

record AppState =
  rawConversations :: "RawConversation list"
  processedConversations :: "ProcessedConversation list"
  filteredConversations :: "ProcessedConversation list"
  selectedConversationIds :: "string set"
  searchTerm :: string
  isLoading :: bool
  error :: "string option"
  initialCount :: nat

definition initialState :: AppState where
  "initialState =
     \<lparr>rawConversations = [], processedConversations = [], filteredConversations = [],
      selectedConversationIds = {}, searchTerm = [], isLoading = False, error = None,
      initialCount = 0\<rparr>"

text \<open>
  The effect that depends on \<^verbatim>\<open>searchTerm\<close> and \<^verbatim>\<open>processedConversations\<close>; every
  handler below that writes one of the two is followed by it.
\<close>

definition matches :: "string \<Rightarrow> ProcessedConversation \<Rightarrow> bool" where
  "matches lowerSearchTerm conv =
     (str_includes (toLowerCase (title conv)) lowerSearchTerm
      \<or> str_includes (toLowerCase (summary conv)) lowerSearchTerm
      \<or> list_ex (\<lambda>msg. str_includes (toLowerCase (contentText msg)) lowerSearchTerm)
           (messages conv))"

definition filterEffect :: "AppState \<Rightarrow> AppState" where
  "filterEffect st =
     (if searchTerm st = [] then st\<lparr>filteredConversations := processedConversations st\<rparr>
      else st\<lparr>filteredConversations :=
                filter (matches (toLowerCase (searchTerm st))) (processedConversations st)\<rparr>)"

definition setSearchTerm :: "string \<Rightarrow> AppState \<Rightarrow> AppState" where
  "setSearchTerm q st = filterEffect (st\<lparr>searchTerm := q\<rparr>)"

text \<open>The synchronous part of \<^verbatim>\<open>handleFileUpload\<close>, once a file is there.\<close>

definition handleFileUpload :: "AppState \<Rightarrow> AppState" where
  "handleFileUpload st =
     filterEffect
       (st\<lparr>isLoading := True, error := None, rawConversations := [],
           processedConversations := [], filteredConversations := [],
           selectedConversationIds := {}, initialCount := 0\<rparr>)"

definition array_of :: "JsonData \<Rightarrow> RawConversation list" where
  "array_of jsonData = (case jsonData of JArray convs \<Rightarrow> convs | JNotArray \<Rightarrow> [])"

definition upload_failed :: "exn \<Rightarrow> AppState \<Rightarrow> AppState" where
  "upload_failed err st =
     st\<lparr>error := Some (''Failed to parse file: '' @ message_of err), isLoading := False\<rparr>"

text \<open>
  \<^verbatim>\<open>reader.onload\<close>; its argument is the outcome of \<^verbatim>\<open>JSON.parse\<close> on the text of the
  file, the exception or the value.
\<close>

definition reader_onload :: "exn + JsonData \<Rightarrow> AppState \<Rightarrow> AppState" where
  "reader_onload parsed_text st =
     filterEffect
       (case parsed_text of
          Inl err \<Rightarrow> upload_failed err st
        | Inr jsonData \<Rightarrow>
           (case parseConversations jsonData of
              Inl err \<Rightarrow> upload_failed err st
            | Inr parsed \<Rightarrow>
                st\<lparr>rawConversations := array_of jsonData,
                    processedConversations := parsed,
                    initialCount := length parsed,
                    isLoading := False\<rparr>))"

definition reader_onerror :: "AppState \<Rightarrow> AppState" where
  "reader_onerror st = st\<lparr>error := Some ''Failed to read file.'', isLoading := False\<rparr>"

datatype FileEvent = NoFile | ReadFailed | Loaded "exn + JsonData"

text \<open>One upload, from the change event to the end of the read.\<close>

definition upload :: "FileEvent \<Rightarrow> AppState \<Rightarrow> AppState" where
  "upload ev st =
     (case ev of
        NoFile \<Rightarrow> st
      | ReadFailed \<Rightarrow> reader_onerror (handleFileUpload st)
      | Loaded parsed_text \<Rightarrow> reader_onload parsed_text (handleFileUpload st))"

definition toggleSelection :: "string \<Rightarrow> AppState \<Rightarrow> AppState" where
  "toggleSelection i st =
     (if i \<in> selectedConversationIds st
      then st\<lparr>selectedConversationIds := selectedConversationIds st - {i}\<rparr>
      else st\<lparr>selectedConversationIds := insert i (selectedConversationIds st)\<rparr>)"

definition handleSelectAllVisible :: "AppState \<Rightarrow> AppState" where
  "handleSelectAllVisible st =
     st\<lparr>selectedConversationIds :=
          foldl (\<lambda>newSet conv. insert (pc_id conv) newSet) (selectedConversationIds st)
            (filteredConversations st)\<rparr>"

definition handleClearSelection :: "AppState \<Rightarrow> AppState" where
  "handleClearSelection st = st\<lparr>selectedConversationIds := {}\<rparr>"

text \<open>
  A download: the name of the file and the value that \<^verbatim>\<open>JSON.stringify\<close> writes into it.
  \<^const>\<open>None\<close> is the alert for an empty selection, where no file is produced.
\<close>

record Download =
  filename :: string
  payload :: "RawConversation list"

definition exportConversations :: "ProcessedConversation list \<Rightarrow> string \<Rightarrow> Download option" where
  "exportConversations conversationsToExport fname =
     (if length conversationsToExport = 0 then None
      else Some \<lparr>filename = fname, payload = map originalData conversationsToExport\<rparr>)"

definition handleExportSelected :: "AppState \<Rightarrow> Download option" where
  "handleExportSelected st =
     exportConversations
       (filter (\<lambda>conv. pc_id conv \<in> selectedConversationIds st) (processedConversations st))
       ''selected_collection.json''"

definition handleExportUnselected :: "AppState \<Rightarrow> Download option" where
  "handleExportUnselected st =
     exportConversations
       (filter (\<lambda>conv. pc_id conv \<notin> selectedConversationIds st) (processedConversations st))
       ''unselected_conversations.json''"

record Stats =
  total :: nat
  processed :: nat
  displayed :: nat
  selected :: nat

definition stats :: "AppState \<Rightarrow> Stats" where
  "stats st =
     \<lparr>total = initialCount st,
      processed = length (processedConversations st),
      displayed = length (filteredConversations st),
      selected = card (selectedConversationIds st)\<rparr>"

text \<open>
  Reading a file back. \<^verbatim>\<open>JSON.stringify\<close> writes an infinite number as \<^verbatim>\<open>null\<close> and
  leaves out a property that is \<^verbatim>\<open>undefined\<close>; every other value of the records
  (finite numbers, strings, booleans, \<^verbatim>\<open>null\<close>, arrays and objects, in the order of their
  properties) is read by \<^verbatim>\<open>JSON.parse\<close> as it was written. (The sign of a zero is lost
  as well; the theory has one zero, and the code treats both alike.)
\<close>

definition written_number :: "number nullable \<Rightarrow> number nullable" where
  "written_number t =
     (case t of
        Undefined \<Rightarrow> Undefined
      | Null \<Rightarrow> Null
      | Value v \<Rightarrow> (case v of Finite x \<Rightarrow> Value (Finite x) | NegInfinity \<Rightarrow> Null | Infinity \<Rightarrow> Null))"

definition written_message :: "RawChatMessage \<Rightarrow> RawChatMessage" where
  "written_message msg = msg\<lparr>create_time := written_number (create_time msg)\<rparr>"

definition written_node :: "RawChatNode \<Rightarrow> RawChatNode" where
  "written_node n = n\<lparr>message := map_option written_message (message n)\<rparr>"

definition written_conversation :: "RawConversation \<Rightarrow> RawConversation" where
  "written_conversation conv =
     conv\<lparr>conv_create_time := written_number (conv_create_time conv),
          conv_update_time := written_number (conv_update_time conv),
          mapping :=
            map_option (map (\<lambda>(k, node). (k, map_option written_node node))) (mapping conv)\<rparr>"

text \<open>The file event of uploading a downloaded file.\<close>

definition reupload :: "Download \<Rightarrow> FileEvent" where
  "reupload d = Loaded (Inr (JArray (map written_conversation (payload d))))"

subsection \<open>Notions used to state the properties\<close>

text \<open>The sort key: the timestamp of a message, a missing one counted as 0.\<close>

definition msg_key :: "Message \<Rightarrow> number" where
  "msg_key m = (case createTime m of None \<Rightarrow> 0 | Some t \<Rightarrow> t)"

text \<open>A node whose message carries a truthy \<^verbatim>\<open>is_visually_hidden_from_conversation\<close>.\<close>

definition node_hidden :: "RawChatNode option \<Rightarrow> bool" where
  "node_hidden node =
     (case node of None \<Rightarrow> False
      | Some n \<Rightarrow> (case message n of None \<Rightarrow> False | Some msg \<Rightarrow> is_hidden msg))"

text \<open>A record that has both a non-empty id and a mapping.\<close>

definition has_id_and_mapping :: "RawConversation \<Rightarrow> bool" where
  "has_id_and_mapping conv = (conv_id conv \<notin> {None, Some []} \<and> mapping conv \<noteq> None)"

text \<open>A conversation with the links of its nodes erased.\<close>

definition erase_links_node :: "RawChatNode \<Rightarrow> RawChatNode" where
  "erase_links_node n = n\<lparr>parent := None, children := []\<rparr>"

definition erase_links :: "RawConversation \<Rightarrow> RawConversation" where
  "erase_links conv =
     conv\<lparr>mapping :=
       map_option (map (\<lambda>(k, node). (k, map_option erase_links_node node))) (mapping conv)\<rparr>"

text \<open>The derived fields of a processed conversation, without the record it came from.\<close>

definition normal_form ::
  "ProcessedConversation
     \<Rightarrow> string \<times> string \<times> number nullable \<times> number nullable \<times> Message list \<times> string" where
  "normal_form pc =
     (pc_id pc, title pc, pc_createTime pc, updateTime pc, messages pc, summary pc)"

text \<open>The derived fields that the round trip compares.\<close>

definition shown_form :: "ProcessedConversation \<Rightarrow> string \<times> string \<times> Message list \<times> string" where
  "shown_form pc = (pc_id pc, title pc, messages pc, summary pc)"

text \<open>A conversation none of whose messages has an infinite \<^verbatim>\<open>create_time\<close>.\<close>

definition message_time_finite :: "RawChatNode option \<Rightarrow> bool" where
  "message_time_finite node =
     (case node of None \<Rightarrow> True
      | Some n \<Rightarrow>
         (case message n of None \<Rightarrow> True
          | Some msg \<Rightarrow>
              create_time msg \<noteq> Value Infinity \<and> create_time msg \<noteq> Value NegInfinity))"

definition finite_message_times :: "RawConversation \<Rightarrow> bool" where
  "finite_message_times conv =
     (case mapping conv of None \<Rightarrow> True
      | Some m \<Rightarrow> list_all (\<lambda>(k, node). message_time_finite node) m)"

text \<open>Emptying the query, selecting all that is visible, exporting the selection.\<close>

definition select_all_and_export :: "AppState \<Rightarrow> Download option" where
  "select_all_and_export st = handleExportSelected (handleSelectAllVisible (setSearchTerm [] st))"

subsection \<open>A small archive\<close>

definition make_message ::
  "string \<Rightarrow> string \<Rightarrow> string \<Rightarrow> number nullable \<Rightarrow> bool \<Rightarrow> RawChatMessage" where
  "make_message i r txt t hidden =
     \<lparr>message_id = i,
      author = \<lparr>role = r, author_name = None\<rparr>,
      create_time = t,
      content = Some \<lparr>content_type = ''text'', parts = Some [txt], content_text = None\<rparr>,
      metadata = Some \<lparr>is_visually_hidden_from_conversation = Some hidden\<rparr>\<rparr>"

definition make_node ::
  "RawChatMessage \<Rightarrow> string option \<Rightarrow> string list \<Rightarrow> RawChatNode" where
  "make_node msg par chs =
     \<lparr>node_id = message_id msg, message = Some msg, parent = par, children = chs\<rparr>"

definition zero_time_message :: RawChatMessage where
  "zero_time_message = make_message ''e'' ''assistant'' ''zero'' (Value (Finite 0)) False"

definition example_mapping :: "(string \<times> RawChatNode option) list" where
  "example_mapping =
     [(''a'', Some (make_node (make_message ''a'' ''user'' ''hello'' (Value (Finite 5)) False)
               None [''b''])),
      (''b'', Some (make_node (make_message ''b'' ''assistant'' ''hi'' Null False)
               (Some ''a'') [''c''])),
      (''c'', Some (make_node (make_message ''c'' ''user'' ''again'' (Value (Finite 5)) False)
               (Some ''b'') [])),
      (''d'', Some (make_node (make_message ''d'' ''system'' ''secret'' (Value (Finite 1)) True)
               None [])),
      (''e'', Some (make_node zero_time_message None [])),
      (''f'', None)]"

text \<open>The same nodes, linked differently.\<close>

definition relinked_mapping :: "(string \<times> RawChatNode option) list" where
  "relinked_mapping =
     [(''a'', Some (make_node (make_message ''a'' ''user'' ''hello'' (Value (Finite 5)) False)
               (Some ''e'') [])),
      (''b'', Some (make_node (make_message ''b'' ''assistant'' ''hi'' Null False)
               None [''a'', ''d''])),
      (''c'', Some (make_node (make_message ''c'' ''user'' ''again'' (Value (Finite 5)) False)
               (Some ''c'') [''c''])),
      (''d'', Some (make_node (make_message ''d'' ''system'' ''secret'' (Value (Finite 1)) True)
               (Some ''b'') [])),
      (''e'', Some (make_node zero_time_message None [''a''])),
      (''f'', None)]"

definition example_conv :: RawConversation where
  "example_conv =
     \<lparr>conv_id = Some ''c1'', conv_title = None, conv_create_time = Value (Finite 10),
      conv_update_time = Value (Finite 20),
      mapping = Some example_mapping, current_node = None\<rparr>"

definition relinked_conv :: RawConversation where
  "relinked_conv = example_conv\<lparr>mapping := Some relinked_mapping\<rparr>"

definition record_without_id :: RawConversation where
  "record_without_id =
     \<lparr>conv_id = None, conv_title = Some ''Lost'', conv_create_time = Value (Finite 1),
      conv_update_time = Value (Finite 2),
      mapping = Some [], current_node = None\<rparr>"

text \<open>
  A conversation read from a file in which the second message has the timestamp
  \<^verbatim>\<open>2e308\<close>, and the download that exports it.
\<close>

definition overflow_conv :: RawConversation where
  "overflow_conv =
     \<lparr>conv_id = Some ''c2'', conv_title = None, conv_create_time = Value (Finite 10),
      conv_update_time = Value (Finite 20),
      mapping = Some
        [(''a'', Some (make_node (make_message ''a'' ''user'' ''first'' (Value (Finite 1)) False)
                  None [''b''])),
         (''b'', Some (make_node (make_message ''b'' ''user'' ''big'' (Value Infinity) False)
                  (Some ''a'') []))],
      current_node = None\<rparr>"

definition overflow_download :: Download where
  "overflow_download = \<lparr>filename = ''selected_collection.json'', payload = [overflow_conv]\<rparr>"

definition example_archive :: "RawConversation list" where
  "example_archive = [example_conv, record_without_id]"

definition example_messages :: "Message list" where
  "example_messages =
     [\<lparr>msg_id = ''b'', authorRole = ''assistant'', contentText = ''hi'', createTime = None\<rparr>,
      \<lparr>msg_id = ''e'', authorRole = ''assistant'', contentText = ''zero'', createTime = None\<rparr>,
      \<lparr>msg_id = ''a'', authorRole = ''user'', contentText = ''hello'', createTime = Some (Finite 5)\<rparr>,
      \<lparr>msg_id = ''c'', authorRole = ''user'', contentText = ''again'', createTime = Some (Finite 5)\<rparr>]"

definition example_pc :: ProcessedConversation where
  "example_pc =
     \<lparr>pc_id = ''c1'', title = ''Untitled Conversation'', pc_createTime = Value (Finite 10),
      updateTime = Value (Finite 20),
      messages = example_messages, summary = ''hello'', originalData = example_conv\<rparr>"

section \<open>Properties\<close>

subsection \<open>The sort\<close>

lemma num_or_zero_key: "num_or_zero (createTime m) = msg_key m"
  by (simp add: num_or_zero_def msg_key_def split: option.splits)

lemma positive_minus: "is_positive (js_minus a b) \<longleftrightarrow> b < a"
  by (cases a; cases b) (auto simp: less_number_def zero_number_def)

lemma insert_sorted_insort: "insert_sorted compareFn x ys = insort_key msg_key x ys"
  by (induction ys) (simp_all add: compareFn_def num_or_zero_key positive_minus not_less)

lemma array_sort_sort_key: "array_sort compareFn xs = sort_key msg_key xs"
  by (induction xs) (simp_all add: insert_sorted_insort)

subsection \<open>The extraction loop\<close>

lemma visit_node_append: "visit_node node msgs = msgs @ visit_node node []"
  by (simp add: visit_node_def Let_def split: option.splits)

lemma foldl_visit:
  "foldl (\<lambda>msgs node. visit_node node msgs) acc nodes
     = acc @ concat (map (\<lambda>node. visit_node node []) nodes)"
proof (induction nodes arbitrary: acc)
  case Nil
  show ?case by simp
next
  case (Cons node nodes)
  show ?case
    by (simp add: Cons.IH) (subst visit_node_append, simp)
qed

lemma collect_messages_concat:
  "collect_messages m = concat (map (\<lambda>(k, node). visit_node node []) m)"
  by (simp add: collect_messages_def Object_values_def foldl_visit case_prod_unfold comp_def)

lemma visit_hidden: "node_hidden node \<Longrightarrow> visit_node node msgs = msgs"
  by (auto simp: node_hidden_def visit_node_def split: option.splits)

lemma collect_drop_hidden:
  "collect_messages (filter (\<lambda>(k, node). \<not> node_hidden node) m) = collect_messages m"
  unfolding collect_messages_concat
  by (induction m) (auto simp: visit_hidden)

lemma find_first:
  "\<forall>x\<in>set pre. \<not> P x \<Longrightarrow> P m \<Longrightarrow> find P (pre @ m # post) = Some m"
  by (induction pre) auto

subsection \<open>The map over the archive\<close>

text \<open>The index only enters the synthesised id, which a surviving record never needs.\<close>

lemma processConversation_index: "processConversation conv i = processConversation conv 0"
  by (auto simp: processConversation_def Let_def truthy_str_def str_or_def split: option.splits)

lemma map_filter_enumerate:
  "List.map_filter (\<lambda>(index, conv). processConversation conv index) (enumerate n convs)
     = List.map_filter (\<lambda>conv. processConversation conv 0) convs"
proof (induction convs arbitrary: n)
  case Nil
  show ?case by simp
next
  case (Cons c cs)
  show ?case
    using processConversation_index [of c n] Cons.IH [of "Suc n"]
    by (simp split: option.splits)
qed

lemma parseConversations_array:
  "parseConversations (JArray convs)
     = Inr (List.map_filter (\<lambda>conv. processConversation conv 0) convs)"
  by (simp add: parseConversations_def map_filter_enumerate)

lemma in_parsed:
  "pc \<in> set (List.map_filter (\<lambda>conv. processConversation conv 0) convs)
     \<longleftrightarrow> (\<exists>conv \<in> set convs. processConversation conv 0 = Some pc)"
  by (induction convs) (auto split: option.splits)

lemma processConversation_Some:
  "processConversation conv i = Some pc \<Longrightarrow>
     \<exists>m. mapping conv = Some m \<and> originalData pc = conv
        \<and> messages pc = array_sort compareFn (collect_messages m)"
  by (auto simp: processConversation_def Let_def split: option.splits if_splits)

lemma processConversation_None_iff:
  "processConversation conv i = None \<longleftrightarrow> \<not> has_id_and_mapping conv"
  by (auto simp: processConversation_def has_id_and_mapping_def truthy_str_def Let_def
      split: option.splits)

lemma processConversation_originalData:
  "processConversation conv i = Some pc \<Longrightarrow> originalData pc = conv"
  by (auto simp: processConversation_def Let_def split: option.splits if_splits)

lemma originalData_parsed:
  "map originalData (List.map_filter (\<lambda>conv. processConversation conv 0) convs)
     = filter has_id_and_mapping convs"
proof (induction convs)
  case Nil
  show ?case by simp
next
  case (Cons c cs)
  show ?case
  proof (cases "processConversation c 0")
    case None
    then show ?thesis
      using Cons.IH processConversation_None_iff [of c 0] by simp
  next
    case (Some pc)
    then have "has_id_and_mapping c"
      using processConversation_None_iff [of c 0] by simp
    then show ?thesis
      using Cons.IH Some by (simp add: processConversation_originalData)
  qed
qed

subsection \<open>The upload\<close>

lemma filterEffect_fields [simp]:
  "processedConversations (filterEffect st) = processedConversations st"
  "initialCount (filterEffect st) = initialCount st"
  "selectedConversationIds (filterEffect st) = selectedConversationIds st"
  "searchTerm (filterEffect st) = searchTerm st"
  "rawConversations (filterEffect st) = rawConversations st"
  by (simp_all add: filterEffect_def)

lemma upload_array:
  "processedConversations (upload (Loaded (Inr (JArray convs))) st)
     = List.map_filter (\<lambda>conv. processConversation conv 0) convs"
  "initialCount (upload (Loaded (Inr (JArray convs))) st)
     = length (List.map_filter (\<lambda>conv. processConversation conv 0) convs)"
  "searchTerm (upload (Loaded (Inr (JArray convs))) st) = searchTerm st"
  "selectedConversationIds (upload (Loaded (Inr (JArray convs))) st) = {}"
  "error (upload (Loaded (Inr (JArray convs))) st) = None"
  by (simp_all add: upload_def reader_onload_def parseConversations_array handleFileUpload_def
      filterEffect_def)

subsection \<open>Links between nodes\<close>

lemma visit_erase: "visit_node (map_option erase_links_node node) msgs = visit_node node msgs"
  by (cases node) (simp_all add: visit_node_def erase_links_node_def)

lemma collect_erase:
  "collect_messages (map (\<lambda>(k, node). (k, map_option erase_links_node node)) m)
     = collect_messages m"
  unfolding collect_messages_concat
  by (induction m) (auto simp: visit_erase)

lemma process_erase:
  "map_option normal_form (processConversation (erase_links conv) i)
     = map_option normal_form (processConversation conv i)"
  by (cases "mapping conv")
     (simp_all add: processConversation_def erase_links_def Let_def normal_form_def collect_erase)

lemma normal_form_parsed:
  "map normal_form (List.map_filter (\<lambda>conv. processConversation conv 0) convs)
     = List.map_filter (\<lambda>conv. map_option normal_form (processConversation conv 0)) convs"
  by (induction convs) (auto split: option.splits)

lemma parsed_erase:
  "List.map_filter (\<lambda>conv. map_option normal_form (processConversation conv 0)) convs
     = List.map_filter (\<lambda>conv. map_option normal_form (processConversation conv 0))
         (map erase_links convs)"
  by (induction convs) (auto simp: process_erase split: option.splits)

subsection \<open>Runs of white space\<close>

lemma replace_no_whitespace:
  "\<forall>c\<in>set s. \<not> is_whitespace c \<Longrightarrow> replace_whitespace_runs s = s"
  by (induction s) auto

lemma replace_run_front:
  assumes "w \<noteq> []" and "\<forall>c\<in>set w. is_whitespace c" and "v = [] \<or> \<not> is_whitespace (hd v)"
  shows "replace_whitespace_runs (w @ v) = CHR ''_'' # replace_whitespace_runs v"
proof -
  from assms(1) obtain c cs where w: "w = c # cs" by (cases w) auto
  have "dropWhile is_whitespace (cs @ v) = v"
    using assms(2,3) w by (cases v) (auto simp: dropWhile_append)
  then show ?thesis
    using assms(2) w by simp
qed

lemma replace_run:
  assumes "w \<noteq> []" and "\<forall>c\<in>set w. is_whitespace c" and "v = [] \<or> \<not> is_whitespace (hd v)"
    and "u = [] \<or> \<not> is_whitespace (last u)"
  shows "replace_whitespace_runs (u @ w @ v)
           = replace_whitespace_runs u @ CHR ''_'' # replace_whitespace_runs v"
  using assms(4)
proof (induction u rule: replace_whitespace_runs.induct)
  case 1
  show ?case using replace_run_front [OF assms(1-3)] by simp
next
  case (2 c cs)
  show ?case
  proof (cases "is_whitespace c")
    case False
    then show ?thesis using 2 by (auto split: if_splits)
  next
    case True
    let ?d = "dropWhile is_whitespace cs"
    from True 2(3) have ne: "cs \<noteq> []" "\<not> is_whitespace (last cs)" by (auto split: if_splits)
    then have l: "last cs \<in> set cs" by simp
    have d: "?d \<noteq> []" "last ?d = last cs"
      using ne l dropWhile_last [of "last cs" cs is_whitespace]
      by (auto simp: dropWhile_eq_Nil_conv)
    have "dropWhile is_whitespace (cs @ w @ v) = ?d @ w @ v"
      using ne l by (auto simp: dropWhile_append)
    then show ?thesis
      using True 2(1) d ne by simp
  qed
qed

subsection \<open>The selection\<close>

lemma foldl_insert_ids:
  "foldl (\<lambda>newSet conv. insert (pc_id conv) newSet) S cs = S \<union> pc_id ` set cs"
  by (induction cs arbitrary: S) auto

lemma untitled_generic: "toLowerCase ''Untitled Conversation'' \<in> set genericTitles"
  by (simp add: toLowerCase_def toLowerCase_char_def genericTitles_def char_of_def bit_Suc_0_iff)

lemma select_all_export_upload:
  "select_all_and_export (upload (Loaded (Inr (JArray convs))) st)
     = exportConversations (List.map_filter (\<lambda>conv. processConversation conv 0) convs)
         ''selected_collection.json''"
proof -
  let ?st1 = "upload (Loaded (Inr (JArray convs))) st"
  let ?P = "List.map_filter (\<lambda>conv. processConversation conv 0) convs"
  have f: "filteredConversations (setSearchTerm [] ?st1) = ?P"
    by (simp add: setSearchTerm_def filterEffect_def upload_array)
  have s0: "selectedConversationIds (setSearchTerm [] ?st1) = {}"
    by (simp add: setSearchTerm_def upload_array)
  have sel: "selectedConversationIds (handleSelectAllVisible (setSearchTerm [] ?st1))
      = pc_id ` set ?P"
    by (simp add: handleSelectAllVisible_def f foldl_insert_ids s0)
  have pr: "processedConversations (handleSelectAllVisible (setSearchTerm [] ?st1)) = ?P"
    by (simp add: handleSelectAllVisible_def setSearchTerm_def upload_array)
  show ?thesis
    by (simp add: select_all_and_export_def handleExportSelected_def sel pr)
qed

subsection \<open>Writing and reading back\<close>

lemma written_number_finite:
  "t \<noteq> Value Infinity \<Longrightarrow> t \<noteq> Value NegInfinity \<Longrightarrow> written_number t = t"
  by (simp add: written_number_def split: nullable.splits number.splits)

lemma written_node_finite:
  "message_time_finite node \<Longrightarrow> map_option written_node node = node"
  by (auto simp: message_time_finite_def written_node_def written_message_def
      written_number_finite split: option.splits)

lemma written_visit:
  "message_time_finite node \<Longrightarrow>
     visit_node (map_option written_node node) msgs = visit_node node msgs"
  by (simp add: written_node_finite)

lemma written_collect:
  "list_all (\<lambda>(k, node). message_time_finite node) m \<Longrightarrow>
     collect_messages (map (\<lambda>(k, node). (k, map_option written_node node)) m)
       = collect_messages m"
  unfolding collect_messages_concat
  by (induction m) (auto simp: written_visit)

lemma written_valid: "has_id_and_mapping (written_conversation conv) = has_id_and_mapping conv"
  by (simp add: has_id_and_mapping_def written_conversation_def)

lemma written_title:
  "map_option title (processConversation (written_conversation conv) i)
     = map_option title (processConversation conv i)"
  by (cases "mapping conv")
     (simp_all add: processConversation_def written_conversation_def Let_def)

lemma written_shown:
  "finite_message_times conv \<Longrightarrow>
     map_option shown_form (processConversation (written_conversation conv) i)
       = map_option shown_form (processConversation conv i)"
  by (cases "mapping conv")
     (simp_all add: processConversation_def written_conversation_def Let_def shown_form_def
       finite_message_times_def written_collect)

lemma reparse_written_title:
  "map title (List.map_filter (\<lambda>conv. processConversation conv 0)
       (map written_conversation (filter has_id_and_mapping convs)))
     = map title (List.map_filter (\<lambda>conv. processConversation conv 0) convs)"
proof (induction convs)
  case Nil
  show ?case by simp
next
  case (Cons c cs)
  show ?case
    using Cons.IH processConversation_None_iff [of c 0] written_title [of c 0]
    by (auto split: option.splits)
qed

lemma reparse_written_shown:
  "list_all finite_message_times convs \<Longrightarrow>
     map shown_form (List.map_filter (\<lambda>conv. processConversation conv 0)
         (map written_conversation (filter has_id_and_mapping convs)))
       = map shown_form (List.map_filter (\<lambda>conv. processConversation conv 0) convs)"
proof (induction convs)
  case Nil
  show ?case by simp
next
  case (Cons c cs)
  then show ?case
    using processConversation_None_iff [of c 0] written_shown [of c 0]
    by (auto split: option.splits)
qed

subsection \<open>The small archive, evaluated\<close>

lemmas model_eval =
  visit_node_def is_hidden_def truthy_str_def str_or_def num_or_undefined_def num_or_zero_def
  compareFn_def trim_def is_whitespace_def collect_messages_def Object_values_def
  generateSummary_def genericTitles_def toLowerCase_def toLowerCase_char_def truncate_dots_def
  is_user_with_text_def is_assistant_with_text_def char_of_def bit_Suc_0_iff
  make_node_def make_message_def zero_time_message_def zero_number_def

lemma example_collected:
  "collect_messages example_mapping =
     [\<lparr>msg_id = ''a'', authorRole = ''user'', contentText = ''hello'', createTime = Some (Finite 5)\<rparr>,
      \<lparr>msg_id = ''b'', authorRole = ''assistant'', contentText = ''hi'', createTime = None\<rparr>,
      \<lparr>msg_id = ''c'', authorRole = ''user'', contentText = ''again'', createTime = Some (Finite 5)\<rparr>,
      \<lparr>msg_id = ''e'', authorRole = ''assistant'', contentText = ''zero'', createTime = None\<rparr>]"
  by (simp add: example_mapping_def model_eval)

lemma relinked_collected: "collect_messages relinked_mapping = collect_messages example_mapping"
  by (simp add: example_mapping_def relinked_mapping_def model_eval)

lemma example_sorted: "array_sort compareFn (collect_messages example_mapping) = example_messages"
  by (simp add: example_collected example_messages_def compareFn_def num_or_zero_def
      zero_number_def less_number_def)

lemma example_summary: "generateSummary ''Untitled Conversation'' example_messages = ''hello''"
  by (simp add: example_messages_def model_eval)

lemma example_processed: "processConversation example_conv i = Some example_pc"
  by (simp add: processConversation_def example_conv_def example_pc_def example_sorted
      example_summary truthy_str_def str_or_def)

lemma relinked_processed:
  "processConversation relinked_conv i = Some (example_pc\<lparr>originalData := relinked_conv\<rparr>)"
  by (simp add: processConversation_def relinked_conv_def example_conv_def example_pc_def
      relinked_collected example_sorted example_summary truthy_str_def str_or_def)

lemma without_id_skipped: "processConversation record_without_id i = None"
  by (simp add: processConversation_def record_without_id_def truthy_str_def)

lemma example_parsed: "parseConversations (JArray example_archive) = Inr [example_pc]"
  by (simp add: parseConversations_array example_archive_def example_processed without_id_skipped)

lemma example_valid: "filter has_id_and_mapping example_archive = [example_conv]"
  by (simp add: example_archive_def has_id_and_mapping_def example_conv_def record_without_id_def)

section \<open>The claims\<close>

text \<open>
  C1. For every normalised conversation, \<^verbatim>\<open>messages\<close> is sorted non-decreasing by
  \<^verbatim>\<open>createTime\<close>, a missing timestamp counted as 0, and the sort is stable: for every
  timestamp, the messages that carry it (or, for 0, carry none) stand in the order in
  which the nodes of the raw mapping produced them.
\<close>

theorem messages_sorted_stable:
  assumes "parseConversations (JArray convs) = Inr pcs" and "pc \<in> set pcs"
  shows "sorted (map (\<lambda>m. case createTime m of None \<Rightarrow> 0 | Some t \<Rightarrow> t) (messages pc))
    \<and> (\<exists>m. mapping (originalData pc) = Some m
         \<and> (\<forall>t. filter (\<lambda>x. (case createTime x of None \<Rightarrow> 0 | Some t \<Rightarrow> t) = t) (messages pc)
                = filter (\<lambda>x. (case createTime x of None \<Rightarrow> 0 | Some t \<Rightarrow> t) = t)
                    (concat (map (\<lambda>(k, node). visit_node node []) m))))"
proof -
  from assms obtain conv where c: "processConversation conv 0 = Some pc"
    by (auto simp: parseConversations_array in_parsed)
  then obtain m where m: "mapping conv = Some m" "originalData pc = conv"
      "messages pc = array_sort compareFn (collect_messages m)"
    using processConversation_Some by blast
  have key: "(\<lambda>m. case createTime m of None \<Rightarrow> 0 | Some t \<Rightarrow> t) = msg_key"
    by (simp add: msg_key_def fun_eq_iff)
  have "sorted (map msg_key (messages pc))"
    by (simp add: m array_sort_sort_key)
  moreover have "filter (\<lambda>x. msg_key x = t) (messages pc)
       = filter (\<lambda>x. msg_key x = t) (concat (map (\<lambda>(k, node). visit_node node []) m))" for t
    by (simp only: m array_sort_sort_key sort_key_stable collect_messages_concat)
  ultimately show ?thesis
    unfolding key using m by (simp add: msg_key_def)
qed

theorem messages_sorted_stable_witness:
  "parseConversations (JArray example_archive) = Inr [example_pc]
   \<and> example_pc \<in> set [example_pc]
   \<and> map msg_id (messages example_pc) = [''b'', ''e'', ''a'', ''c'']
   \<and> sorted (map (\<lambda>m. case createTime m of None \<Rightarrow> 0 | Some t \<Rightarrow> t) (messages example_pc))
   \<and> (\<exists>m. mapping (originalData example_pc) = Some m
        \<and> (\<forall>t. filter (\<lambda>x. (case createTime x of None \<Rightarrow> 0 | Some t \<Rightarrow> t) = t)
                   (messages example_pc)
               = filter (\<lambda>x. (case createTime x of None \<Rightarrow> 0 | Some t \<Rightarrow> t) = t)
                   (concat (map (\<lambda>(k, node). visit_node node []) m))))"
proof -
  have p: "parseConversations (JArray example_archive) = Inr [example_pc]"
    by (rule example_parsed)
  have i: "example_pc \<in> set [example_pc]" by simp
  have "map msg_id (messages example_pc) = [''b'', ''e'', ''a'', ''c'']"
    by (simp add: example_pc_def example_messages_def)
  with p i messages_sorted_stable [OF p i] show ?thesis by blast
qed

text \<open>
  C2. For every archive, a node whose message has a truthy
  \<^verbatim>\<open>metadata.is_visually_hidden_from_conversation\<close> contributes no message to the
  normalised output: the messages of every conversation are those computed from the
  mapping with the hidden nodes taken out, and the visit of a hidden node pushes nothing.
\<close>

theorem hidden_nodes_contribute_nothing:
  assumes "parseConversations (JArray convs) = Inr pcs" and "pc \<in> set pcs"
  shows "\<exists>m. mapping (originalData pc) = Some m
           \<and> messages pc =
               array_sort compareFn
                 (collect_messages (filter (\<lambda>(k, node). \<not> node_hidden node) m))
           \<and> (\<forall>(k, node) \<in> set m. node_hidden node \<longrightarrow> (\<forall>msgs. visit_node node msgs = msgs))"
proof -
  from assms obtain conv where c: "processConversation conv 0 = Some pc"
    by (auto simp: parseConversations_array in_parsed)
  then obtain m where m: "mapping conv = Some m" "originalData pc = conv"
      "messages pc = array_sort compareFn (collect_messages m)"
    using processConversation_Some by blast
  then show ?thesis
    by (auto simp: collect_drop_hidden visit_hidden)
qed

theorem hidden_nodes_contribute_nothing_witness:
  "parseConversations (JArray example_archive) = Inr [example_pc]
   \<and> example_pc \<in> set [example_pc]
   \<and> node_hidden (Some (make_node (make_message ''d'' ''system'' ''secret'' (Value (Finite 1)) True)
        None []))
   \<and> ''d'' \<notin> set (map msg_id (messages example_pc))
   \<and> (\<exists>m. mapping (originalData example_pc) = Some m
        \<and> messages example_pc =
            array_sort compareFn
              (collect_messages (filter (\<lambda>(k, node). \<not> node_hidden node) m))
        \<and> (\<forall>(k, node) \<in> set m.
              node_hidden node \<longrightarrow> (\<forall>msgs. visit_node node msgs = msgs)))"
proof -
  have p: "parseConversations (JArray example_archive) = Inr [example_pc]"
    by (rule example_parsed)
  have i: "example_pc \<in> set [example_pc]" by simp
  have h: "node_hidden (Some (make_node (make_message ''d'' ''system'' ''secret'' (Value (Finite 1)) True)
        None []))"
    by (simp add: node_hidden_def model_eval)
  have "''d'' \<notin> set (map msg_id (messages example_pc))"
    by (simp add: example_pc_def example_messages_def)
  with p i h hidden_nodes_contribute_nothing [OF p i] show ?thesis by blast
qed

text \<open>
  C3. \<^verbatim>\<open>generateSummary\<close> obeys the precedence: a title that is non-empty and, in lower
  case, none of "new chat", "empty chat", "untitled conversation" is returned cut to 150
  characters, with "..." appended iff it was longer; otherwise, when the list has a
  message with \<^verbatim>\<open>authorRole\<close> "user" and non-empty text, the text of the first such
  message is returned cut to 100 characters, with "..." appended iff it was longer.
\<close>

theorem generateSummary_precedence:
  "(ttl \<noteq> [] \<and> toLowerCase ttl \<notin> {''new chat'', ''empty chat'', ''untitled conversation''}
      \<longrightarrow> generateSummary ttl msgs
            = take 150 ttl @ (if length ttl > 150 then ''...'' else []))
   \<and> (\<not> (ttl \<noteq> [] \<and> toLowerCase ttl \<notin> {''new chat'', ''empty chat'', ''untitled conversation''})
        \<and> msgs = earlier @ m # later
        \<and> (\<forall>x \<in> set earlier. \<not> (authorRole x = ''user'' \<and> contentText x \<noteq> []))
        \<and> authorRole m = ''user'' \<and> contentText m \<noteq> []
      \<longrightarrow> generateSummary ttl msgs
            = take 100 (contentText m) @ (if length (contentText m) > 100 then ''...'' else []))"
proof -
  have g: "set genericTitles = {''new chat'', ''empty chat'', ''untitled conversation''}"
    by (simp add: genericTitles_def)
  have "find is_user_with_text (earlier @ m # later) = Some m"
    if "\<forall>x \<in> set earlier. \<not> (authorRole x = ''user'' \<and> contentText x \<noteq> [])"
      and "authorRole m = ''user''" and "contentText m \<noteq> []"
    using that by (intro find_first) (simp_all add: is_user_with_text_def)
  then show ?thesis
    unfolding generateSummary_def g truncate_dots_def by auto
qed

theorem generateSummary_precedence_witness:
  "generateSummary ''Project Plan'' example_messages = ''Project Plan''
   \<and> generateSummary (replicate 151 CHR ''x'') example_messages = replicate 150 CHR ''x'' @ ''...''
   \<and> generateSummary ''New Chat'' example_messages = ''hello''
   \<and> generateSummary ''New Chat''
        [\<lparr>msg_id = ''a'', authorRole = ''user'', contentText = replicate 101 CHR ''y'',
          createTime = None\<rparr>]
       = replicate 100 CHR ''y'' @ ''...''"
proof -
  have l: "toLowerCase ''Project Plan'' = ''project plan''"
    "toLowerCase ''New Chat'' = ''new chat''"
    by (simp_all add: toLowerCase_def toLowerCase_char_def char_of_def bit_Suc_0_iff)
  have lx: "toLowerCase_char CHR ''x'' = CHR ''x''"
    by (simp add: toLowerCase_char_def)
  have x: "toLowerCase (replicate 151 CHR ''x'') = replicate 151 CHR ''x''"
    unfolding toLowerCase_def map_replicate lx ..
  have r: "replicate 151 CHR ''x'' \<notin> {''new chat'', ''empty chat'', ''untitled conversation''}"
  proof
    assume "replicate 151 CHR ''x'' \<in> {''new chat'', ''empty chat'', ''untitled conversation''}"
    then have "length (replicate 151 CHR ''x'')
        \<in> length ` {''new chat'', ''empty chat'', ''untitled conversation''}"
      by (rule imageI)
    then show False
      by (simp only: length_replicate image_insert image_empty list.size) simp
  qed
  have n: "replicate 151 CHR ''x'' \<noteq> []" "replicate 101 CHR ''y'' \<noteq> []"
    by simp_all
  have "generateSummary ''Project Plan'' example_messages = ''Project Plan''"
    using generateSummary_precedence [of "''Project Plan''" example_messages] by (simp add: l)
  moreover have "generateSummary (replicate 151 CHR ''x'') example_messages
      = replicate 150 CHR ''x'' @ ''...''"
    using generateSummary_precedence [of "replicate 151 CHR ''x''" example_messages] r n(1)
    unfolding x
    by (simp only: length_replicate take_replicate) simp
  moreover have "generateSummary ''New Chat'' example_messages = ''hello''"
    using generateSummary_precedence [of "''New Chat''" example_messages
        "take 2 example_messages" "example_messages ! 2" "drop 3 example_messages"]
    by (simp add: l example_messages_def)
  moreover have "generateSummary ''New Chat''
        [\<lparr>msg_id = ''a'', authorRole = ''user'', contentText = replicate 101 CHR ''y'',
          createTime = None\<rparr>]
       = replicate 100 CHR ''y'' @ ''...''"
    using generateSummary_precedence [of "''New Chat''" _ "[]"
        "\<lparr>msg_id = ''a'', authorRole = ''user'', contentText = replicate 101 CHR ''y'',
          createTime = None\<rparr>" "[]"] n(2)
    by (simp only: l Message.simps length_replicate take_replicate) simp
  ultimately show ?thesis by blast
qed

text \<open>
  C4, as stated, fails: a surviving node whose raw \<^verbatim>\<open>create_time\<close> is 0 yields a message
  without \<^verbatim>\<open>createTime\<close>, because \<^verbatim>\<open>create_time || undefined\<close> takes 0 for falsy.
\<close>

theorem createTime_zero_counterexample:
  "create_time zero_time_message = Value 0
   \<and> visit_node (Some (make_node zero_time_message None [])) []
       = [\<lparr>msg_id = ''e'', authorRole = ''assistant'', contentText = ''zero'',
           createTime = None\<rparr>]"
  by (simp add: model_eval)

text \<open>
  C4, amended. For every surviving node, the \<^verbatim>\<open>createTime\<close> of the message it produces
  equals the raw \<^verbatim>\<open>create_time\<close> whenever that is a number other than 0; a raw
  \<^verbatim>\<open>create_time\<close> that is missing, \<^verbatim>\<open>null\<close> or 0 yields a message without \<^verbatim>\<open>createTime\<close>.
\<close>

theorem createTime_of_surviving_node:
  assumes "message n = Some msg" and "visit_node (Some n) [] \<noteq> []"
  shows "\<exists>m. visit_node (Some n) msgs = msgs @ [m]
           \<and> (\<forall>t. create_time msg = Value t \<and> t \<noteq> 0 \<longrightarrow> createTime m = Some t)
           \<and> (create_time msg \<in> {Undefined, Null, Value 0} \<longrightarrow> createTime m = None)"
  using assms
  by (auto simp: visit_node_def Let_def num_or_undefined_def
      split: option.splits if_splits nullable.splits)

theorem createTime_of_surviving_node_witness:
  "message (make_node (make_message ''a'' ''user'' ''hello'' (Value (Finite 5)) False) None [''b''])
     = Some (make_message ''a'' ''user'' ''hello'' (Value (Finite 5)) False)
   \<and> visit_node
        (Some (make_node (make_message ''a'' ''user'' ''hello'' (Value (Finite 5)) False) None [''b'']))
        [] \<noteq> []
   \<and> map createTime
        (visit_node
          (Some (make_node (make_message ''a'' ''user'' ''hello'' (Value (Finite 5)) False) None [''b'']))
          [])
       = [Some (Finite 5)]"
proof -
  let ?msg = "make_message ''a'' ''user'' ''hello'' (Value (Finite 5)) False"
  let ?n = "make_node ?msg None [''b'']"
  have a: "message ?n = Some ?msg"
    by (simp add: make_node_def)
  have b: "visit_node (Some ?n) [] \<noteq> []"
    by (simp add: model_eval)
  have c: "create_time ?msg = Value (Finite 5)"
    by (simp add: make_message_def)
  from createTime_of_surviving_node [OF a b, of "[]"] c
  have "map createTime (visit_node (Some ?n) []) = [Some (Finite 5)]"
    by (auto simp: zero_number_def)
  with a b show ?thesis by blast
qed

text \<open>
  C5. The claim asks that, after a successful upload, \<^verbatim>\<open>total\<close> be the number of raw
  records of the uploaded array, skipped records included. The code stores
  \<^verbatim>\<open>parsed.length\<close>, the number of records left after the skip: for an archive of one
  record without an id, \<^verbatim>\<open>total\<close> is 0 although the array holds one record.
\<close>

theorem total_is_count_after_skip:
  "total (stats (upload (Loaded (Inr (JArray [record_without_id]))) initialState)) = 0
   \<and> error (upload (Loaded (Inr (JArray [record_without_id]))) initialState) = None
   \<and> length [record_without_id] = 1"
  by (simp add: stats_def upload_array without_id_skipped)

text \<open>
  C6. For every archive that is an array, \<^verbatim>\<open>processed\<close> is at most \<^verbatim>\<open>total\<close> (and at
  most the length of the array), \<^verbatim>\<open>processed\<close> is the number of records that have both a
  non-empty id and a mapping, and the processed conversations are made from exactly those
  records, in the order of the array.
\<close>

theorem processed_counts_valid_records:
  "processed (stats (upload (Loaded (Inr (JArray convs))) st))
      \<le> total (stats (upload (Loaded (Inr (JArray convs))) st))
   \<and> processed (stats (upload (Loaded (Inr (JArray convs))) st))
      = length (filter has_id_and_mapping convs)
   \<and> processed (stats (upload (Loaded (Inr (JArray convs))) st)) \<le> length convs
   \<and> map originalData (processedConversations (upload (Loaded (Inr (JArray convs))) st))
      = filter has_id_and_mapping convs"
proof -
  have "length (List.map_filter (\<lambda>conv. processConversation conv 0) convs)
          = length (filter has_id_and_mapping convs)"
    using originalData_parsed [of convs, THEN arg_cong, of length] by simp
  then show ?thesis
    by (simp add: stats_def upload_array originalData_parsed)
qed

theorem processed_counts_valid_records_witness:
  "processed (stats (upload (Loaded (Inr (JArray example_archive))) initialState)) = 1
   \<and> processed (stats (upload (Loaded (Inr (JArray example_archive))) initialState))
      \<le> total (stats (upload (Loaded (Inr (JArray example_archive))) initialState))
   \<and> length example_archive = 2
   \<and> map originalData
        (processedConversations (upload (Loaded (Inr (JArray example_archive))) initialState))
      = [example_conv]"
  using processed_counts_valid_records [of example_archive initialState]
  by (simp add: example_valid) (simp add: example_archive_def)

text \<open>
  C7, as stated, fails twice: for a non-empty name that the steps reduce to nothing the
  result is the empty string, not the default; and the slash of "My/Chat: Plans?" is
  removed, not replaced, so the result is "MyChat_Plans".
\<close>

theorem sanitizeFilename_default_counterexample:
  "sanitizeFilename ''?'' = []
   \<and> sanitizeFilename ''?'' \<noteq> ''untitled_conversation''
   \<and> sanitizeFilename ''My/Chat: Plans?'' \<noteq> ''My_Chat_Plans''"
  by (simp add: sanitizeFilename_def remove_unsuitable_def unsuitable_chars_def is_whitespace_def)

text \<open>
  C7, amended. \<^verbatim>\<open>sanitizeFilename\<close> returns "untitled_conversation" for the empty name.
  For any other name it replaces every run of white space by a single underscore (a name
  without white space is left as it is; a run between a part that does not end in white
  space and a part that does not start with it becomes one underscore between the
  results for the two parts), then removes the characters \<^verbatim>\<open>/ \ ? % * : | " < >\<close>, then
  cuts to 100 characters; the result may be empty. It maps "My/Chat: Plans?" to
  "MyChat_Plans".
\<close>

theorem sanitizeFilename_steps:
  "sanitizeFilename [] = ''untitled_conversation''
   \<and> (name \<noteq> [] \<longrightarrow>
        sanitizeFilename name
          = take 100 (filter (\<lambda>c. c \<notin> set unsuitable_chars) (replace_whitespace_runs name)))
   \<and> ((\<forall>c \<in> set name. \<not> is_whitespace c) \<longrightarrow> replace_whitespace_runs name = name)
   \<and> (w \<noteq> [] \<and> (\<forall>c \<in> set w. is_whitespace c)
        \<and> (u = [] \<or> \<not> is_whitespace (last u)) \<and> (v = [] \<or> \<not> is_whitespace (hd v)) \<longrightarrow>
        replace_whitespace_runs (u @ w @ v)
          = replace_whitespace_runs u @ ''_'' @ replace_whitespace_runs v)
   \<and> sanitizeFilename ''My/Chat: Plans?'' = ''MyChat_Plans''"
proof -
  have e: "sanitizeFilename ''My/Chat: Plans?'' = ''MyChat_Plans''"
    by (simp add: sanitizeFilename_def remove_unsuitable_def unsuitable_chars_def
        is_whitespace_def)
  have a: "sanitizeFilename [] = ''untitled_conversation''"
    by (simp add: sanitizeFilename_def)
  have b: "name \<noteq> [] \<longrightarrow>
        sanitizeFilename name
          = take 100 (filter (\<lambda>c. c \<notin> set unsuitable_chars) (replace_whitespace_runs name))"
    by (simp add: sanitizeFilename_def remove_unsuitable_def)
  have c: "(\<forall>c \<in> set name. \<not> is_whitespace c) \<longrightarrow> replace_whitespace_runs name = name"
    using replace_no_whitespace by blast
  have d: "w \<noteq> [] \<and> (\<forall>c \<in> set w. is_whitespace c)
        \<and> (u = [] \<or> \<not> is_whitespace (last u)) \<and> (v = [] \<or> \<not> is_whitespace (hd v)) \<longrightarrow>
        replace_whitespace_runs (u @ w @ v)
          = replace_whitespace_runs u @ ''_'' @ replace_whitespace_runs v"
    using replace_run [of w v u] by simp
  from a b c d e show ?thesis by (intro conjI)
qed

theorem sanitizeFilename_steps_witness:
  "sanitizeFilename ''a<b>'' = ''ab''
   \<and> replace_whitespace_runs ''a<b>'' = ''a<b>''
   \<and> replace_whitespace_runs (''My'' @ [CHR '' '', CHR 0x09, CHR '' ''] @ ''Chat'') = ''My_Chat''"
proof -
  have n: "''a<b>'' \<noteq> []" by simp
  have s: "\<forall>c \<in> set ''a<b>''. \<not> is_whitespace c"
    by (simp add: is_whitespace_def)
  have w: "[CHR '' '', CHR 0x09, CHR '' ''] \<noteq> []"
    "\<forall>c \<in> set [CHR '' '', CHR 0x09, CHR '' '']. is_whitespace c"
    "''My'' = [] \<or> \<not> is_whitespace (last ''My'')"
    "''Chat'' = [] \<or> \<not> is_whitespace (hd ''Chat'')"
    by (simp_all add: is_whitespace_def)
  have r: "replace_whitespace_runs ''My'' = ''My''" "replace_whitespace_runs ''Chat'' = ''Chat''"
    by (simp_all add: is_whitespace_def)
  from sanitizeFilename_steps [of "''a<b>''" "[CHR '' '', CHR 0x09, CHR '' '']" "''My''" "''Chat''"]
    n s w r
  show ?thesis
    by (simp add: unsuitable_chars_def)
qed

text \<open>
  C8, as stated, fails. A file may hold a timestamp that is out of range, such as
  \<^verbatim>\<open>2e308\<close>; it is read as an infinity, so the message sorts last, and it is written
  back as \<^verbatim>\<open>null\<close>, so after the re-upload the message sorts first: the order of the
  messages and the summary change.
\<close>

theorem roundtrip_overflow_counterexample:
  "select_all_and_export (upload (Loaded (Inr (JArray [overflow_conv]))) initialState)
     = Some overflow_download
   \<and> map (map msg_id \<circ> messages)
        (processedConversations (upload (Loaded (Inr (JArray [overflow_conv]))) initialState))
     = [[''a'', ''b'']]
   \<and> map summary
        (processedConversations (upload (Loaded (Inr (JArray [overflow_conv]))) initialState))
     = [''first'']
   \<and> map (map msg_id \<circ> messages)
        (processedConversations (upload (reupload overflow_download) initialState))
     = [[''b'', ''a'']]
   \<and> map summary
        (processedConversations (upload (reupload overflow_download) initialState))
     = [''big'']"
  by (simp add: select_all_export_upload upload_array reupload_def exportConversations_def
      overflow_download_def overflow_conv_def processConversation_def written_conversation_def
      written_node_def written_message_def written_number_def less_number_def model_eval)

text \<open>
  C8, amended. Round trip. After any upload of an array, with the query emptied and
  everything visible selected, the export of the selection produces a file exactly when
  there is a processed conversation, and its payload is the \<^verbatim>\<open>originalData\<close> of the
  processed conversations. Uploading that file again, in any state, yields the same
  \<^verbatim>\<open>processed\<close> count and the same titles; when no message of the archive has an
  infinite \<^verbatim>\<open>create_time\<close>, it also yields the same ids, messages and summaries.
\<close>

theorem export_reupload_roundtrip:
  "(select_all_and_export (upload (Loaded (Inr (JArray convs))) st) = None
      \<longleftrightarrow> processedConversations (upload (Loaded (Inr (JArray convs))) st) = [])
   \<and> (\<forall>d. select_all_and_export (upload (Loaded (Inr (JArray convs))) st) = Some d \<longrightarrow>
        payload d
          = map originalData (processedConversations (upload (Loaded (Inr (JArray convs))) st))
        \<and> processed (stats (upload (reupload d) st'))
          = processed (stats (upload (Loaded (Inr (JArray convs))) st))
        \<and> map title (processedConversations (upload (reupload d) st'))
          = map title (processedConversations (upload (Loaded (Inr (JArray convs))) st))
        \<and> (list_all finite_message_times convs \<longrightarrow>
             map messages (processedConversations (upload (reupload d) st'))
               = map messages (processedConversations (upload (Loaded (Inr (JArray convs))) st))
             \<and> map summary (processedConversations (upload (reupload d) st'))
               = map summary (processedConversations (upload (Loaded (Inr (JArray convs))) st))
             \<and> map pc_id (processedConversations (upload (reupload d) st'))
               = map pc_id (processedConversations (upload (Loaded (Inr (JArray convs))) st))))"
proof -
  let ?P = "List.map_filter (\<lambda>conv. processConversation conv 0) convs"
  let ?Q = "List.map_filter (\<lambda>conv. processConversation conv 0)
              (map written_conversation (filter has_id_and_mapping convs))"
  have t: "map title ?Q = map title ?P"
    by (rule reparse_written_title)
  then have l: "length ?Q = length ?P"
    using map_eq_imp_length_eq by blast
  have m: "map messages ?Q = map messages ?P \<and> map summary ?Q = map summary ?P
      \<and> map pc_id ?Q = map pc_id ?P"
    if "list_all finite_message_times convs"
  proof -
    have "map f (map shown_form ?Q) = map f (map shown_form ?P)" for f :: "_ \<Rightarrow> 'b"
      using reparse_written_shown [OF that] by simp
    from this [of "\<lambda>(i, t, m, s). m"] this [of "\<lambda>(i, t, m, s). s"] this [of "\<lambda>(i, t, m, s). i"]
    show ?thesis
      by (simp add: shown_form_def comp_def)
  qed
  show ?thesis
    unfolding select_all_export_upload
    using t l m
    by (auto simp: exportConversations_def upload_array reupload_def stats_def
        originalData_parsed)
qed

theorem export_reupload_roundtrip_witness:
  "list_all finite_message_times example_archive
   \<and> select_all_and_export (upload (Loaded (Inr (JArray example_archive))) initialState)
     = Some \<lparr>filename = ''selected_collection.json'', payload = [example_conv]\<rparr>
   \<and> map messages
        (processedConversations
          (upload (reupload \<lparr>filename = ''selected_collection.json'', payload = [example_conv]\<rparr>)
             initialState))
     = [example_messages]
   \<and> map summary
        (processedConversations
          (upload (reupload \<lparr>filename = ''selected_collection.json'', payload = [example_conv]\<rparr>)
             initialState))
     = [''hello'']"
proof -
  let ?st1 = "upload (Loaded (Inr (JArray example_archive))) initialState"
  let ?d = "\<lparr>filename = ''selected_collection.json'', payload = [example_conv]\<rparr>"
  have p: "processedConversations ?st1 = [example_pc]"
    by (simp add: upload_array example_archive_def example_processed without_id_skipped)
  have f: "list_all finite_message_times example_archive"
    by (simp add: example_archive_def finite_message_times_def message_time_finite_def
        example_conv_def record_without_id_def example_mapping_def make_node_def
        make_message_def zero_time_message_def)
  have d: "select_all_and_export ?st1 = Some ?d"
    by (simp add: select_all_export_upload exportConversations_def example_archive_def
        example_processed without_id_skipped example_pc_def)
  from export_reupload_roundtrip [of example_archive initialState initialState] d f p
  have "map messages (processedConversations (upload (reupload ?d) initialState))
          = [example_messages]"
    "map summary (processedConversations (upload (reupload ?d) initialState)) = [''hello'']"
    by (simp_all add: example_pc_def)
  with f d show ?thesis by simp
qed

text \<open>
  C9. Two archives that agree once the \<^verbatim>\<open>parent\<close> and \<^verbatim>\<open>children\<close> fields of all their
  nodes are erased are normalised to the same message lists and summaries (and the same
  ids and titles): the links between nodes have no influence on the output.
\<close>

theorem topology_irrelevant:
  assumes "map erase_links convs1 = map erase_links convs2"
    and "parseConversations (JArray convs1) = Inr pcs1"
    and "parseConversations (JArray convs2) = Inr pcs2"
  shows "map messages pcs1 = map messages pcs2 \<and> map summary pcs1 = map summary pcs2
    \<and> map title pcs1 = map title pcs2 \<and> map pc_id pcs1 = map pc_id pcs2"
proof -
  have p: "pcs1 = List.map_filter (\<lambda>conv. processConversation conv 0) convs1"
    "pcs2 = List.map_filter (\<lambda>conv. processConversation conv 0) convs2"
    using assms(2,3) by (simp_all add: parseConversations_array)
  have "map normal_form pcs1 = map normal_form pcs2"
    unfolding p normal_form_parsed
    by (subst parsed_erase, subst (2) parsed_erase) (simp only: assms(1))
  then have "map f (map normal_form pcs1) = map f (map normal_form pcs2)" for f :: "_ \<Rightarrow> 'b"
    by simp
  from this [of "\<lambda>(i, t, c, u, m, s). m"] this [of "\<lambda>(i, t, c, u, m, s). s"]
    this [of "\<lambda>(i, t, c, u, m, s). t"] this [of "\<lambda>(i, t, c, u, m, s). i"]
  show ?thesis
    by (simp add: normal_form_def comp_def)
qed

theorem topology_irrelevant_witness:
  "example_conv \<noteq> relinked_conv
   \<and> map erase_links [example_conv] = map erase_links [relinked_conv]
   \<and> parseConversations (JArray [example_conv]) = Inr [example_pc]
   \<and> parseConversations (JArray [relinked_conv])
       = Inr [example_pc\<lparr>originalData := relinked_conv\<rparr>]
   \<and> map messages [example_pc] = map messages [example_pc\<lparr>originalData := relinked_conv\<rparr>]
   \<and> map summary [example_pc] = map summary [example_pc\<lparr>originalData := relinked_conv\<rparr>]"
proof -
  have ne: "example_conv \<noteq> relinked_conv"
    by (simp add: relinked_conv_def example_conv_def example_mapping_def relinked_mapping_def
        make_node_def)
  have e: "map erase_links [example_conv] = map erase_links [relinked_conv]"
    by (simp add: erase_links_def erase_links_node_def relinked_conv_def example_conv_def
        example_mapping_def relinked_mapping_def make_node_def)
  have p1: "parseConversations (JArray [example_conv]) = Inr [example_pc]"
    by (simp add: parseConversations_array example_processed)
  have p2: "parseConversations (JArray [relinked_conv])
       = Inr [example_pc\<lparr>originalData := relinked_conv\<rparr>]"
    by (simp add: parseConversations_array relinked_processed)
  from topology_irrelevant [OF e p1 p2] ne e p1 p2 show ?thesis by blast
qed

text \<open>
  C10. For every surviving record whose \<^verbatim>\<open>title\<close> is missing or empty, the title of the
  processed conversation is "Untitled Conversation"; that title is one of the generic
  ones for \<^verbatim>\<open>generateSummary\<close>, so the summary is the cut text of the first user message
  with text, else of the first assistant message with text, else the title itself.
\<close>

theorem untitled_title_summary:
  assumes "processConversation conv index = Some pc"
    and "conv_title conv = None \<or> conv_title conv = Some []"
  shows "title pc = ''Untitled Conversation''
    \<and> toLowerCase (title pc) \<in> set genericTitles
    \<and> summary pc =
        (case find (\<lambda>m. authorRole m = ''user'' \<and> contentText m \<noteq> []) (messages pc) of
           Some m \<Rightarrow> take 100 (contentText m) @ (if length (contentText m) > 100 then ''...'' else [])
         | None \<Rightarrow>
            (case find (\<lambda>m. authorRole m = ''assistant'' \<and> contentText m \<noteq> []) (messages pc) of
               Some m \<Rightarrow>
                 take 100 (contentText m) @ (if length (contentText m) > 100 then ''...'' else [])
             | None \<Rightarrow> ''Untitled Conversation''))"
proof -
  have u: "is_user_with_text = (\<lambda>m. authorRole m = ''user'' \<and> contentText m \<noteq> [])"
    and a: "is_assistant_with_text = (\<lambda>m. authorRole m = ''assistant'' \<and> contentText m \<noteq> [])"
    by (simp_all add: fun_eq_iff is_user_with_text_def is_assistant_with_text_def)
  have t: "str_or (conv_title conv) ''Untitled Conversation'' = ''Untitled Conversation''"
    using assms(2) by (auto simp: str_or_def)
  from assms(1) obtain m where
    pc: "pc = \<lparr>pc_id = str_or (conv_id conv) (''generated-id-'' @ decimal index),
               title = ''Untitled Conversation'',
               pc_createTime = conv_create_time conv,
               updateTime = conv_update_time conv,
               messages = array_sort compareFn (collect_messages m),
               summary = generateSummary ''Untitled Conversation''
                           (array_sort compareFn (collect_messages m)),
               originalData = conv\<rparr>"
    by (auto simp: processConversation_def Let_def t split: option.splits if_splits)
  have s: "generateSummary ''Untitled Conversation'' ms =
        (case find is_user_with_text ms of
           Some m \<Rightarrow> truncate_dots 100 (contentText m)
         | None \<Rightarrow>
            (case find is_assistant_with_text ms of
               Some m \<Rightarrow> truncate_dots 100 (contentText m)
             | None \<Rightarrow> ''Untitled Conversation''))" for ms
    using untitled_generic by (simp add: generateSummary_def)
  show ?thesis
    using untitled_generic by (simp add: pc s u a truncate_dots_def cong: option.case_cong)
qed

theorem untitled_title_summary_witness:
  "processConversation example_conv 0 = Some example_pc
   \<and> (conv_title example_conv = None \<or> conv_title example_conv = Some [])
   \<and> title example_pc = ''Untitled Conversation''
   \<and> summary example_pc = ''hello''"
proof -
  have p: "processConversation example_conv 0 = Some example_pc"
    by (rule example_processed)
  have t: "conv_title example_conv = None \<or> conv_title example_conv = Some []"
    by (simp add: example_conv_def)
  have "summary example_pc = ''hello''"
    by (simp add: example_pc_def)
  with untitled_title_summary [OF p t] p t show ?thesis by blast
qed

end
